theory Spec2Isabelle
  imports Main "HOL-Library.Sublist"
begin

section \<open>JavaScript helpers used by the server\<close>

text \<open>
  \<^verbatim>\<open>String.prototype.startsWith\<close> and \<^verbatim>\<open>endsWith\<close> on strings,
  \<^verbatim>\<open>Math.round(a / b)\<close> on integers with a positive divisor (JavaScript rounds
  halves towards plus infinity, so it is the floor of \<open>a / b + 1 / 2\<close>).
\<close>

definition startsWith :: "string \<Rightarrow> string \<Rightarrow> bool" where
  "startsWith s p = (take (length p) s = p)"

definition endsWith :: "string \<Rightarrow> string \<Rightarrow> bool" where
  "endsWith s p = (length p \<le> length s \<and> drop (length s - length p) s = p)"

definition Math_round_div :: "int \<Rightarrow> int \<Rightarrow> int" where
  "Math_round_div a b = (2 * a + b) div (2 * b)"

section \<open>Status probe: \<^verbatim>\<open>app.get('/api/status')\<close>\<close>

text \<open>
  One entry of \<^verbatim>\<open>readdirSync('uploads')\<close> together with what \<^verbatim>\<open>statSync\<close>
  reports for it: the modification time in milliseconds and the size in bytes.
\<close>

record file_stat =
  name :: string
  mtime :: int
  size_bytes :: nat

record status_json =
  isActive :: bool
  isStuck :: bool
  message :: "string option"
  fileName :: "string option"
  fileSizeMB :: "int option"
  idleSeconds :: "int option"

definition is_recovery_sql :: "string \<Rightarrow> bool" where
  "is_recovery_sql f =
     ((startsWith f ''recovery_'' \<or> startsWith f ''manual_recovery_'') \<and> endsWith f ''.sql'')"

text \<open>
  \<^verbatim>\<open>.filter(...).map(...).sort((a, b) => b.mtime - a.mtime)\<close>: a stable sort,
  newest first.
\<close>

definition sqlFiles :: "file_stat list \<Rightarrow> file_stat list" where
  "sqlFiles dir = sort_key (\<lambda>a. - mtime a) (filter (\<lambda>e. is_recovery_sql (name e)) dir)"

definition ageSeconds :: "int \<Rightarrow> file_stat \<Rightarrow> int" where
  "ageSeconds now f = Math_round_div (now - mtime f) 1000"

text \<open>
  The handler. The directory listing is \<open>Inl msg\<close> when \<^verbatim>\<open>readdirSync\<close> or
  \<^verbatim>\<open>statSync\<close> throws; the handler then answers 500 with the message (\<open>Inl\<close>).
  The \<^verbatim>\<open>lastModified\<close> field is a locale-dependent rendering of \<open>mtime\<close> and is
  left out of the record.
\<close>

definition api_status :: "int \<Rightarrow> string + file_stat list \<Rightarrow> string + status_json" where
  "api_status now uploads =
     (case uploads of
        Inl err \<Rightarrow> Inl err
      | Inr dir \<Rightarrow>
          (case sqlFiles dir of
             [] \<Rightarrow> Inr \<lparr>isActive = False, isStuck = False,
                        message = Some ''No recovery files found'',
                        fileName = None, fileSizeMB = None, idleSeconds = None\<rparr>
           | latestFile # _ \<Rightarrow>
               Inr \<lparr>isActive = (ageSeconds now latestFile \<le> 120),
                    isStuck = (ageSeconds now latestFile > 120),
                    message = None,
                    fileName = Some (name latestFile),
                    fileSizeMB = Some (Math_round_div (int (size_bytes latestFile)) (1024 * 1024)),
                    idleSeconds = Some (ageSeconds now latestFile)\<rparr>))"

text \<open>
  The claim's notions, stated on their own: a recovery SQL file is an entry whose name
  begins with \<^verbatim>\<open>recovery_\<close> or \<^verbatim>\<open>manual_recovery_\<close> and ends with \<^verbatim>\<open>.sql\<close>;
  the age of an entry \<open>f\<close> at the time \<open>now\<close> is \<open>now - mtime f\<close> milliseconds.
\<close>

definition recovery_sql_file :: "file_stat \<Rightarrow> bool" where
  "recovery_sql_file f =
     ((prefix ''recovery_'' (name f) \<or> prefix ''manual_recovery_'' (name f)) \<and>
      suffix ''.sql'' (name f))"

section \<open>Paths: the POSIX half of Node's \<^verbatim>\<open>path\<close> module\<close>

text \<open>
  The server runs in the Linux container of the \<^verbatim>\<open>Dockerfile\<close>, so \<^verbatim>\<open>path\<close> is
  \<^verbatim>\<open>path.posix\<close>. \<open>normalizeString\<close> works through the segments between slashes:
  an empty segment and \<^verbatim>\<open>.\<close> are dropped, \<^verbatim>\<open>..\<close> removes the segment before it, and
  is kept only where nothing is left to remove and the path is relative.
\<close>

fun split_on :: "char \<Rightarrow> string \<Rightarrow> string list" where
  "split_on c [] = [[]]"
| "split_on c (x # xs) =
     (if x = c then [] # split_on c xs
      else (case split_on c xs of [] \<Rightarrow> [[x]] | s # ss \<Rightarrow> (x # s) # ss))"

fun join_with :: "string \<Rightarrow> string list \<Rightarrow> string" where
  "join_with sep [] = []"
| "join_with sep [s] = s"
| "join_with sep (s # t # ss) = s @ sep @ join_with sep (t # ss)"

fun normalizeSegs :: "bool \<Rightarrow> string list \<Rightarrow> string list \<Rightarrow> string list" where
  "normalizeSegs allowAboveRoot res [] = rev res"
| "normalizeSegs allowAboveRoot res (s # ss) =
     (if s = [] \<or> s = ''.'' then normalizeSegs allowAboveRoot res ss
      else if s = ''..'' then
        (case res of
           [] \<Rightarrow> normalizeSegs allowAboveRoot (if allowAboveRoot then [''..''] else []) ss
         | t # ts \<Rightarrow>
             if t \<noteq> ''..'' then normalizeSegs allowAboveRoot ts ss
             else normalizeSegs allowAboveRoot (if allowAboveRoot then ''..'' # res else res) ss)
      else normalizeSegs allowAboveRoot (s # res) ss)"

definition normalizeString :: "string \<Rightarrow> bool \<Rightarrow> string" where
  "normalizeString path allowAboveRoot =
     join_with ''/'' (normalizeSegs allowAboveRoot [] (split_on CHR ''/'' path))"

definition isAbsolute :: "string \<Rightarrow> bool" where
  "isAbsolute path = (case path of [] \<Rightarrow> False | c # _ \<Rightarrow> c = CHR ''/'')"

definition path_normalize :: "string \<Rightarrow> string" where
  "path_normalize path =
     (if path = [] then ''.''
      else
        let trailingSeparator = (last path = CHR ''/'');
            p = normalizeString path (\<not> isAbsolute path)
        in if p = [] then (if isAbsolute path then ''/'' else if trailingSeparator then ''./'' else ''.'')
           else (if isAbsolute path then ''/'' else []) @ p @ (if trailingSeparator then ''/'' else []))"

text \<open>\<^verbatim>\<open>path.join(a, b)\<close>: the non-empty arguments joined by a slash, then normalized.\<close>

definition path_join :: "string \<Rightarrow> string \<Rightarrow> string" where
  "path_join a b =
     (if a = [] \<and> b = [] then ''.''
      else path_normalize (if a = [] then b else if b = [] then a else a @ ''/'' @ b))"

text \<open>
  \<^verbatim>\<open>path.resolve(p)\<close> with one argument; \<open>cwd\<close> is \<^verbatim>\<open>process.cwd()\<close>, an absolute
  path.
\<close>

definition path_resolve :: "string \<Rightarrow> string \<Rightarrow> string" where
  "path_resolve cwd p =
     (let resolvedPath = (if p = [] then cwd @ ''/''
                          else if isAbsolute p then p @ ''/''
                          else cwd @ ''/'' @ p @ ''/'')
      in ''/'' @ normalizeString resolvedPath False)"

text \<open>
  \<^verbatim>\<open>path.extname\<close>: from the last dot of the last path component, empty when there is
  no dot, when the dot opens the component, or when the component is \<^verbatim>\<open>..\<close>.
\<close>

definition last_component :: "string \<Rightarrow> string" where
  "last_component path =
     (case filter (\<lambda>s. s \<noteq> []) (split_on CHR ''/'' path) of [] \<Rightarrow> [] | s # ss \<Rightarrow> last (s # ss))"

fun last_dot :: "string \<Rightarrow> nat option" where
  "last_dot [] = None"
| "last_dot (c # cs) =
     (case last_dot cs of
        Some i \<Rightarrow> Some (Suc i)
      | None \<Rightarrow> if c = CHR ''.'' then Some 0 else None)"

definition extname :: "string \<Rightarrow> string" where
  "extname path =
     (let base = last_component path
      in case last_dot base of
           None \<Rightarrow> []
         | Some d \<Rightarrow> if d = 0 \<or> base = ''..'' then [] else drop d base)"

text \<open>\<^verbatim>\<open>path.basename(p, ext)\<close>: the last component, without the suffix \<open>ext\<close>.\<close>

definition basename :: "string \<Rightarrow> string \<Rightarrow> string" where
  "basename path ext =
     (let base = last_component path
      in if ext \<noteq> [] \<and> path = ext then []
         else if ext \<noteq> [] \<and> endsWith base ext \<and> base \<noteq> ext
         then take (length base - length ext) base
         else base)"

definition toLowerCase :: "string \<Rightarrow> string" where
  "toLowerCase s =
     map (\<lambda>c. if (65::nat) \<le> of_char c \<and> of_char c \<le> (90::nat)
               then char_of (of_char c + (32::nat)) else c) s"

section \<open>Artifact retrieval: \<^verbatim>\<open>app.get('/api/download/:filename')\<close>\<close>

text \<open>
  What the handler does to the file system, in order, and what it answers. \<open>exists p\<close>
  says whether \<^verbatim>\<open>fs.access(p)\<close> succeeds. The \<open>Unlink\<close> is the cleanup the handler
  schedules five seconds after the stream has ended. A path that exists is taken to be a
  regular file, which the read stream delivers to its end: on a directory (the identifier
  \<^verbatim>\<open>.\<close> names the uploads directory itself) the stream fails instead, the response is
  never completed and nothing is unlinked. Identifiers are strings of 8-bit characters; an
  identifier with a character above U+00FF, which \<^verbatim>\<open>setHeader\<close> refuses as well, cannot
  be written here.
\<close>

datatype fs_call = Access string | CreateReadStream string | Unlink string

datatype download_response =
  Forbidden403
| NotFound404
| StreamFile string string

definition contentType :: "string \<Rightarrow> string" where
  "contentType filename =
     (let ext = toLowerCase (extname filename)
      in if ext = ''.sql'' then ''text/sql''
         else if ext \<in> set [''.db'', ''.sqlite'', ''.sqlite3''] then ''application/x-sqlite3''
         else ''application/octet-stream'')"

text \<open>
  \<^verbatim>\<open>res.setHeader\<close> throws on a value with a character outside tab, 0x20 to 0x7e and
  0x80 to 0xff; the handler's \<^verbatim>\<open>catch\<close> turns that into the 404 as well.
\<close>

definition valid_header_value :: "string \<Rightarrow> bool" where
  "valid_header_value v =
     list_all (\<lambda>c. of_char c = (9::nat) \<or> ((32::nat) \<le> of_char c \<and> of_char c \<le> (126::nat))
                   \<or> (128::nat) \<le> of_char c) v"

definition download :: "string \<Rightarrow> (string \<Rightarrow> bool) \<Rightarrow> string \<Rightarrow> fs_call list \<times> download_response" where
  "download cwd exists filename =
     (let filePath = path_join ''uploads'' filename;
          resolvedPath = path_resolve cwd filePath;
          uploadsPath = path_resolve cwd ''uploads''
      in if \<not> startsWith resolvedPath uploadsPath then ([], Forbidden403)
         else if \<not> exists filePath then ([Access filePath], NotFound404)
         else if \<not> valid_header_value
                     (''attachment; filename='' @ [CHR 0x22] @ filename @ [CHR 0x22])
         then ([Access filePath], NotFound404)
         else ([Access filePath, CreateReadStream filePath, Unlink filePath],
               StreamFile (contentType filename) filePath))"

text \<open>
  The claim's notion, stated on its own: a resolved path lies in a directory when it is the
  directory or continues it after a separator.
\<close>

definition resolves_inside :: "string \<Rightarrow> string \<Rightarrow> bool" where
  "resolves_inside dir resolved = (resolved = dir \<or> startsWith resolved (dir @ ''/''))"

section \<open>Recovery submission: \<^verbatim>\<open>app.post('/api/recover')\<close>\<close>

text \<open>
  \<^verbatim>\<open>req.file\<close> as multer leaves it, and what the awaited helpers answer during one
  request: \<^verbatim>\<open>Date.now()\<close> as it is spliced into the output names, the result of
  \<^verbatim>\<open>extractSqliteFromZip\<close> (path and base name of the extracted file, \<open>None\<close> for
  \<^verbatim>\<open>null\<close>), and the \<^verbatim>\<open>{success, error}\<close> results of \<^verbatim>\<open>executeRecovery\<close> and
  \<^verbatim>\<open>createDatabaseFromSql\<close>, neither of which throws.
\<close>

record upload_file =
  file_path :: string
  originalname :: string

record recover_world =
  timestamp :: string
  extracted :: "(string \<times> string) option"
  recoveryResult :: "bool \<times> string"
  dbCreationResult :: "bool \<times> string"

datatype recover_response =
  Json200 string string
| Json400 string
| Json500 string
| NoResponse

text \<open>
  The files on disk are a set of paths. \<^verbatim>\<open>fs.unlink\<close> rejects (\<open>Inl\<close>) when the path
  is not there.
\<close>

definition unlink :: "string \<Rightarrow> string set \<Rightarrow> string + string set" where
  "unlink p files = (if p \<in> files then Inr (files - {p}) else Inl ''ENOENT'')"

text \<open>
  \<^verbatim>\<open>try { await fs.unlink(p) } catch { ... }\<close>: the rejection is logged and dropped.
\<close>

definition unlink_quietly :: "string \<Rightarrow> string set \<Rightarrow> string set" where
  "unlink_quietly p files = (case unlink p files of Inl e \<Rightarrow> files | Inr files' \<Rightarrow> files')"

text \<open>
  The part of the \<^verbatim>\<open>try\<close> block after the ZIP handling. \<open>inputPath\<close> and
  \<open>baseName\<close> are the block's \<^verbatim>\<open>let\<close> variables at that point. The result is the
  files on disk and either the thrown error's message (\<open>Inl\<close>) or the response sent.
\<close>

definition recover_run :: "recover_world \<Rightarrow> string \<Rightarrow> string \<Rightarrow> string set
    \<Rightarrow> string set \<times> (string + recover_response)" where
  "recover_run w inputPath baseName files =
     (let sqlOutputPath = ''uploads/recovery_'' @ timestamp w @ ''_'' @ baseName @ ''.sql'';
          dbOutputPath = ''uploads/recovered_'' @ timestamp w @ ''_'' @ baseName @ ''.db''
      in if \<not> fst (recoveryResult w) then (files, Inl (snd (recoveryResult w)))
         else if \<not> fst (dbCreationResult w)
           then (insert sqlOutputPath files, Inl (snd (dbCreationResult w)))
         else (unlink_quietly inputPath (insert dbOutputPath (insert sqlOutputPath files)),
               Inr (Json200 (basename sqlOutputPath []) (basename dbOutputPath []))))"

text \<open>
  The \<^verbatim>\<open>try\<close> block. \<open>inputPath\<close>, \<open>originalInputPath\<close> and \<open>baseName\<close> are
  declared with \<^verbatim>\<open>let\<close> inside the block, so they are bound here and nowhere else.
  A ZIP upload is replaced by the extracted file: the extraction has written it, the ZIP is
  unlinked (a rejection there is thrown), and \<open>inputPath\<close> is reassigned.
\<close>

definition recover_try :: "recover_world \<Rightarrow> upload_file option \<Rightarrow> string set
    \<Rightarrow> string set \<times> (string + recover_response)" where
  "recover_try w file files =
     (case file of
        None \<Rightarrow> (files, Inr (Json400 ''No database file uploaded''))
      | Some f \<Rightarrow>
          let inputPath = file_path f;
              originalInputPath = file_path f;
              baseName = basename (originalname f) (extname (originalname f))
          in if toLowerCase (extname (originalname f)) = ''.zip'' then
               (case extracted w of
                  None \<Rightarrow> (files, Inl ''No SQLite database file found in the ZIP archive'')
                | Some (extractedPath, extractedBase) \<Rightarrow>
                    (case unlink inputPath (insert extractedPath files) of
                       Inl e \<Rightarrow> (insert extractedPath files, Inl e)
                     | Inr files' \<Rightarrow> recover_run w extractedPath extractedBase files'))
             else recover_run w inputPath baseName files)"

text \<open>
  The \<^verbatim>\<open>catch\<close> block. It is outside the \<^verbatim>\<open>try\<close> block's scope: \<open>scope\<close> holds
  the string variables visible there, by name. \<^verbatim>\<open>typeof x !== 'undefined'\<close> is false
  for a name no enclosing scope declares, and \<^verbatim>\<open>&&\<close> then skips its right operand;
  reading an undeclared name is a ReferenceError, after which no response is sent.
\<close>

definition recover_catch :: "(string \<rightharpoonup> string) \<Rightarrow> upload_file option \<Rightarrow> string
    \<Rightarrow> string set \<Rightarrow> string set \<times> recover_response" where
  "recover_catch scope file msg files =
     (let files1 = (case file of None \<Rightarrow> files | Some f \<Rightarrow> unlink_quietly (file_path f) files);
          answer = Json500 (if msg = [] then ''Recovery failed'' else msg)
      in case scope ''inputPath'' of
           None \<Rightarrow> (files1, answer)
         | Some inputPath \<Rightarrow>
             (case scope ''originalInputPath'' of
                None \<Rightarrow> (files1, NoResponse)
              | Some originalInputPath \<Rightarrow>
                  if inputPath \<noteq> originalInputPath
                  then (unlink_quietly inputPath files1, answer)
                  else (files1, answer)))"

text \<open>
  The string variables declared outside the \<^verbatim>\<open>try\<close> block and visible to the
  \<^verbatim>\<open>catch\<close> block: the handler declares \<open>sessionId\<close> only; the module declares no
  \<open>inputPath\<close> or \<open>originalInputPath\<close> (its top-level names are \<^verbatim>\<open>express\<close>,
  \<^verbatim>\<open>multer\<close>, \<^verbatim>\<open>path\<close>, \<^verbatim>\<open>fs\<close>, \<^verbatim>\<open>spawn\<close>, \<^verbatim>\<open>cors\<close>, \<^verbatim>\<open>AdmZip\<close>,
  \<^verbatim>\<open>app\<close>, \<^verbatim>\<open>PORT\<close>, \<^verbatim>\<open>NODE_ENV\<close>, \<^verbatim>\<open>progressStore\<close>, \<^verbatim>\<open>storage\<close>,
  \<^verbatim>\<open>upload\<close> and its functions).
\<close>

definition handler_scope :: "string \<Rightarrow> (string \<rightharpoonup> string)" where
  "handler_scope sessionId = [''sessionId'' \<mapsto> sessionId]"

text \<open>
  The handler, from the \<^verbatim>\<open>try\<close> on. (\<^verbatim>\<open>cleanupOldRecoveryFiles\<close> runs before it
  and removes only recovery artifacts older than five minutes; \<open>files\<close> is what is on
  disk after it.)
\<close>

definition api_recover :: "recover_world \<Rightarrow> string \<Rightarrow> upload_file option \<Rightarrow> string set
    \<Rightarrow> string set \<times> recover_response" where
  "api_recover w sessionId file files =
     (case recover_try w file files of
        (files', Inr response) \<Rightarrow> (files', response)
      | (files', Inl msg) \<Rightarrow> recover_catch (handler_scope sessionId) file msg files')"

section \<open>External processes and the session state\<close>

text \<open>
  What a spawned \<^verbatim>\<open>sqlite3\<close> process reports to the handlers registered on it: the
  \<^verbatim>\<open>'error'\<close> event of a failed spawn with its message, or the \<^verbatim>\<open>'close'\<close> event
  with the exit code, after stdout and stderr have been collected. The first of the two
  settles the wrapper's promise. Node emits \<^verbatim>\<open>'close'\<close> after the \<^verbatim>\<open>'error'\<close> of a
  failed spawn as well, with a nonzero code and nothing collected; the promise is settled
  by then, so the result of a wrapper is the one of its \<^verbatim>\<open>'error'\<close> handler, and the
  session a wrapper returns below is the session at the moment its promise settles. The
  two \<^verbatim>\<open>'close'\<close> handlers that do more than resolve have their late run modelled apart
  (\<open>tryBasicExtraction_late_close\<close>, \<open>executeRecovery_late_close\<close>).
\<close>

datatype proc_outcome =
  SpawnError string
| Closed int string string

text \<open>
  The world of one server: what each \<^verbatim>\<open>sqlite3\<close> invocation reports, by its argument
  list; which invocations are still running thirty seconds after their spawn;
  \<^verbatim>\<open>JSON.parse\<close> on the rows of a name query (the \<open>name\<close> field of each row, \<open>None\<close>
  when it throws); and, for the n-th write to the output file, the message it rejects with
  (\<open>None\<close> when it succeeds).
\<close>

record tool_env =
  sqlite3 :: "string list \<Rightarrow> proc_outcome"
  exceeds_30s :: "string list \<Rightarrow> bool"
  JSON_parse :: "string \<Rightarrow> string list option"
  write_error :: "nat \<Rightarrow> string option"

datatype strategy = FullRecover | DumpAll | TableByTable | SchemaOnly | TableListOnly

text \<open>
  The state a session threads through its calls: every \<^verbatim>\<open>sqlite3\<close> argument list
  spawned so far, oldest first; the strategies run so far with whether each reported
  success (kept for the statements below, the code has no such log); the content of the
  output SQL file, the one \<open>outputPath\<close> every strategy of a session is given; the number
  of writes issued to it. Console output and the progress events of \<^verbatim>\<open>sendProgress\<close>,
  which catches its own errors and returns nothing, are left out.
\<close>

record session =
  spawns :: "string list list"
  attempts :: "(strategy \<times> bool) list"
  outfile :: "string option"
  writes :: nat

definition spawn :: "string list \<Rightarrow> session \<Rightarrow> session" where
  "spawn argv s = s\<lparr>spawns := spawns s @ [argv]\<rparr>"

definition attempted :: "strategy \<Rightarrow> bool \<Rightarrow> session \<Rightarrow> session" where
  "attempted st ok s = s\<lparr>attempts := attempts s @ [(st, ok)]\<rparr>"

text \<open>
  \<^verbatim>\<open>fs.writeFile\<close> and \<^verbatim>\<open>fs.appendFile\<close> on the output path: \<open>Inl\<close> is the
  rejection, with the state at that point.
\<close>

definition writeFile :: "tool_env \<Rightarrow> string \<Rightarrow> session \<Rightarrow> (string \<times> session) + session" where
  "writeFile env content s =
     (case write_error env (writes s) of
        Some e \<Rightarrow> Inl (e, s\<lparr>writes := Suc (writes s)\<rparr>)
      | None \<Rightarrow> Inr (s\<lparr>outfile := Some content, writes := Suc (writes s)\<rparr>))"

definition appendFile :: "tool_env \<Rightarrow> string \<Rightarrow> session \<Rightarrow> (string \<times> session) + session" where
  "appendFile env content s =
     (case write_error env (writes s) of
        Some e \<Rightarrow> Inl (e, s\<lparr>writes := Suc (writes s)\<rparr>)
      | None \<Rightarrow>
          Inr (s\<lparr>outfile := Some ((case outfile s of None \<Rightarrow> [] | Some old \<Rightarrow> old) @ content),
                 writes := Suc (writes s)\<rparr>))"

text \<open>
  The \<^verbatim>\<open>{success, error, tablesRecovered, tablesFailed}\<close> objects the strategies
  resolve with.
\<close>

datatype strategy_result =
  Succeeded
| SucceededTables nat nat
| Failed string

fun success :: "strategy_result \<Rightarrow> bool" where
  "success (Failed e) = False"
| "success r = True"


definition isSpace :: "char \<Rightarrow> bool" where
  "isSpace c = (c \<in> set [CHR '' '', CHR 0x09, CHR 0x0A, CHR 0x0B, CHR 0x0C, CHR 0x0D])"

definition trim :: "string \<Rightarrow> string" where
  "trim s = rev (dropWhile isSpace (rev (dropWhile isSpace s)))"

fun show_nat :: "nat \<Rightarrow> string" where
  "show_nat n =
     (if n < 10 then [char_of (48 + n)]
      else show_nat (n div 10) @ [char_of (48 + n mod 10)])"

section \<open>The capability probe: \<^verbatim>\<open>checkSqliteVersion\<close> and \<^verbatim>\<open>testRecoverCommand\<close>\<close>






section \<open>The fallback strategies\<close>

text \<open>
  \<^verbatim>\<open>queryDatabase\<close>. The file declares the function twice; a later function
  declaration replaces an earlier one, so every call runs the second, which resolves
  \<^verbatim>\<open>null\<close> (\<open>None\<close>) on any failure.
\<close>

definition queryDatabase :: "tool_env \<Rightarrow> string \<Rightarrow> string \<Rightarrow> string list option" where
  "queryDatabase env dbPath query =
     (case sqlite3 env [dbPath, ''-json'', query] of
        Closed code output err \<Rightarrow> if code = 0 \<and> output \<noteq> [] then JSON_parse env output else None
      | SpawnError m \<Rightarrow> None)"

definition names_query :: string where
  "names_query = ''SELECT name FROM sqlite_master WHERE type='' @ [CHR 0x27] @ ''table''
                   @ [CHR 0x27] @ '' AND name NOT LIKE '' @ [CHR 0x27] @ ''sqlite_%'' @ [CHR 0x27]"

text \<open>\<^verbatim>\<open>dumpSingleTable\<close>: the thirty-second timer resolves first when it fires.\<close>

datatype table_result =
  TableOk string
| TableFailed string

definition dump_argv :: "string \<Rightarrow> string \<Rightarrow> string list" where
  "dump_argv dbPath tableName = [dbPath, ''.dump '' @ [CHR 0x22] @ tableName @ [CHR 0x22]]"

definition dumpSingleTable :: "tool_env \<Rightarrow> string \<Rightarrow> string \<Rightarrow> table_result" where
  "dumpSingleTable env dbPath tableName =
     (if exceeds_30s env (dump_argv dbPath tableName) then TableFailed ''timeout''
      else case sqlite3 env (dump_argv dbPath tableName) of
             Closed code output err \<Rightarrow>
               if code = 0 \<and> output \<noteq> [] then TableOk output
               else TableFailed (if err \<noteq> [] then err else ''dump failed'')
           | SpawnError m \<Rightarrow> TableFailed m)"

definition table_chunk :: "string \<Rightarrow> table_result \<Rightarrow> string" where
  "table_chunk tableName r =
     (case r of
        TableOk sql \<Rightarrow> [CHR 0x0A] @ ''-- Table: '' @ tableName @ [CHR 0x0A] @ sql @ [CHR 0x0A]
      | TableFailed e \<Rightarrow>
          [CHR 0x0A] @ ''-- Table: '' @ tableName @ '' (FAILED - '' @ e @ '')'' @ [CHR 0x0A])"

text \<open>
  The \<^verbatim>\<open>for\<close> loop of \<^verbatim>\<open>tryTableByTableRecovery\<close> over the tables still to do,
  with \<open>successCount\<close>, \<open>failedTables\<close> and the session. A rejected append leaves the
  loop (\<open>Inl\<close>): it is the only exit before the list is exhausted.
\<close>

fun table_loop :: "tool_env \<Rightarrow> string \<Rightarrow> string list \<Rightarrow> nat \<Rightarrow> string list \<Rightarrow> session
    \<Rightarrow> (string \<times> session) + (nat \<times> string list \<times> session)" where
  "table_loop env inputPath [] successCount failedTables s = Inr (successCount, failedTables, s)"
| "table_loop env inputPath (tableName # rest) successCount failedTables s =
     (case dumpSingleTable env inputPath tableName of
        TableOk sql \<Rightarrow>
          (case appendFile env (table_chunk tableName (TableOk sql))
                  (spawn (dump_argv inputPath tableName) s) of
             Inl e \<Rightarrow> Inl e
           | Inr s' \<Rightarrow> table_loop env inputPath rest (Suc successCount) failedTables s')
      | TableFailed e \<Rightarrow>
          (case appendFile env (table_chunk tableName (TableFailed e))
                  (spawn (dump_argv inputPath tableName) s) of
             Inl e \<Rightarrow> Inl e
           | Inr s' \<Rightarrow> table_loop env inputPath rest successCount (failedTables @ [tableName]) s'))"

definition table_header :: string where
  "table_header = ''-- Table-by-Table Recovery'' @ [CHR 0x0A]
     @ ''-- Some tables may be skipped due to corruption'' @ [CHR 0x0A]
     @ ''PRAGMA foreign_keys=OFF;'' @ [CHR 0x0A, CHR 0x0A]"

definition table_footer :: "nat \<Rightarrow> nat \<Rightarrow> string list \<Rightarrow> string" where
  "table_footer successCount tableCount failedTables =
     [CHR 0x0A] @ ''-- Recovery Summary:'' @ [CHR 0x0A]
     @ ''-- Successfully recovered: '' @ show_nat successCount @ ''/'' @ show_nat tableCount
     @ '' tables'' @ [CHR 0x0A]
     @ (if failedTables \<noteq> []
        then ''-- Failed tables: '' @ join_with '', '' failedTables @ [CHR 0x0A] else [])"

definition tryTableByTableRecovery :: "tool_env \<Rightarrow> string \<Rightarrow> session \<Rightarrow> strategy_result \<times> session" where
  "tryTableByTableRecovery env inputPath s =
     (case queryDatabase env inputPath names_query of
        None \<Rightarrow> (Failed ''No tables found'', spawn [inputPath, ''-json'', names_query] s)
      | Some tables \<Rightarrow>
          if length tables = 0
          then (Failed ''No tables found'', spawn [inputPath, ''-json'', names_query] s)
          else
            (case writeFile env table_header (spawn [inputPath, ''-json'', names_query] s) of
               Inl (e, s') \<Rightarrow> (Failed e, s')
             | Inr s1 \<Rightarrow>
                 (case table_loop env inputPath tables 0 [] s1 of
                    Inl (e, s') \<Rightarrow> (Failed e, s')
                  | Inr (successCount, failedTables, s2) \<Rightarrow>
                      (case appendFile env
                              (table_footer successCount (length tables) failedTables) s2 of
                         Inl (e, s') \<Rightarrow> (Failed e, s')
                       | Inr s3 \<Rightarrow>
                           if successCount > 0
                           then (SucceededTables successCount (length failedTables), s3)
                           else (Failed ''All tables failed to recover'', s3)))))"

definition schema_script :: "string \<Rightarrow> string" where
  "schema_script output =
     ''-- Schema Recovery'' @ [CHR 0x0A] @ ''PRAGMA foreign_keys=OFF;'' @ [CHR 0x0A]
     @ ''BEGIN TRANSACTION;'' @ [CHR 0x0A, CHR 0x0A] @ output @ [CHR 0x0A, CHR 0x0A]
     @ ''-- Note: Data extraction may have failed due to corruption'' @ [CHR 0x0A]
     @ ''-- Schema recovered successfully'' @ [CHR 0x0A] @ ''COMMIT;'' @ [CHR 0x0A]"

definition trySchemaExtraction :: "tool_env \<Rightarrow> string \<Rightarrow> session \<Rightarrow> strategy_result \<times> session" where
  "trySchemaExtraction env inputPath s =
     (case sqlite3 env [inputPath, ''.schema''] of
        Closed code output err \<Rightarrow>
          if code = 0 \<and> output \<noteq> [] then
            (case writeFile env (schema_script output) (spawn [inputPath, ''.schema''] s) of
               Inl (e, s') \<Rightarrow> (Failed e, s')
             | Inr s' \<Rightarrow> (Succeeded, s'))
          else (Failed err, spawn [inputPath, ''.schema''] s)
      | SpawnError m \<Rightarrow> (Failed m, spawn [inputPath, ''.schema''] s))"

definition basic_script :: "int \<Rightarrow> string \<Rightarrow> string" where
  "basic_script code output =
     ''-- Basic Recovery Attempt'' @ [CHR 0x0A]
     @ ''-- Database appears to be severely corrupted'' @ [CHR 0x0A]
     @ ''PRAGMA foreign_keys=OFF;'' @ [CHR 0x0A] @ ''BEGIN TRANSACTION;'' @ [CHR 0x0A, CHR 0x0A]
     @ (if code = 0 \<and> output \<noteq> []
        then ''-- Tables found:'' @ [CHR 0x0A] @ ''-- '' @ trim output @ [CHR 0x0A, CHR 0x0A]
             @ ''-- Note: Table structures and data could not be recovered'' @ [CHR 0x0A]
             @ ''-- due to severe database corruption'' @ [CHR 0x0A]
        else ''-- No tables could be identified'' @ [CHR 0x0A]
             @ ''-- Database is severely corrupted or not a valid SQLite file'' @ [CHR 0x0A])
     @ ''COMMIT;'' @ [CHR 0x0A]"

definition tryBasicExtraction :: "tool_env \<Rightarrow> string \<Rightarrow> session \<Rightarrow> strategy_result \<times> session" where
  "tryBasicExtraction env inputPath s =
     (case sqlite3 env [inputPath, ''.tables''] of
        Closed code output err \<Rightarrow>
          (case writeFile env (basic_script code output) (spawn [inputPath, ''.tables''] s) of
             Inl (e, s') \<Rightarrow> (Failed e, s')
           | Inr s' \<Rightarrow> (Succeeded, s'))
      | SpawnError m \<Rightarrow> (Failed m, spawn [inputPath, ''.tables''] s))"

text \<open>
  The \<^verbatim>\<open>'close'\<close> that follows a failed spawn of \<^verbatim>\<open>sqlite3 inputPath .tables\<close>, with
  its nonzero code and no output: the handler writes the report all the same, and its
  \<^verbatim>\<open>resolve\<close> finds the promise settled. \<open>s\<close> is the session at that time.
\<close>

definition tryBasicExtraction_late_close :: "tool_env \<Rightarrow> int \<Rightarrow> session \<Rightarrow> session" where
  "tryBasicExtraction_late_close env code s =
     (case writeFile env (basic_script code []) s of
        Inl (e, s') \<Rightarrow> s'
      | Inr s' \<Rightarrow> s')"

section \<open>The strategy chain: \<^verbatim>\<open>executeRecovery\<close> and \<^verbatim>\<open>tryAlternativeRecovery\<close>\<close>

text \<open>
  \<^verbatim>\<open>tryAlternativeRecovery\<close> of the current server: table by table, then the schema,
  then the table list. It does not call \<^verbatim>\<open>tryDumpCommand\<close> (``Skip .dump for corrupted
  databases - go straight to table-by-table'').
\<close>

definition tryAlternativeRecovery :: "tool_env \<Rightarrow> string \<Rightarrow> session \<Rightarrow> strategy_result \<times> session" where
  "tryAlternativeRecovery env inputPath s =
     (case tryTableByTableRecovery env inputPath s of
        (tableResult, s1) \<Rightarrow>
          if success tableResult then (tableResult, attempted TableByTable True s1)
          else
            (case trySchemaExtraction env inputPath (attempted TableByTable False s1) of
               (schemaResult, s2) \<Rightarrow>
                 if success schemaResult then (schemaResult, attempted SchemaOnly True s2)
                 else
                   (case tryBasicExtraction env inputPath (attempted SchemaOnly False s2) of
                      (basicResult, s3) \<Rightarrow>
                        (basicResult, attempted TableListOnly (success basicResult) s3))))"



text \<open>
  The \<^verbatim>\<open>'close'\<close> that follows a failed spawn of the primary command, with its nonzero
  code: the handler still runs \<open>alternative\<close>, in the background, and the result it
  passes to \<^verbatim>\<open>resolve\<close> is dropped, the promise being settled with the spawn failure.
  \<open>s\<close> is the session \<open>executeRecovery_with\<close> returned.
\<close>

definition executeRecovery_late_close ::
  "(tool_env \<Rightarrow> string \<Rightarrow> session \<Rightarrow> strategy_result \<times> session)
    \<Rightarrow> tool_env \<Rightarrow> string \<Rightarrow> session \<Rightarrow> session" where
  "executeRecovery_late_close alternative env inputPath s = snd (alternative env inputPath s)"





section \<open>Database materializer: \<^verbatim>\<open>createDatabaseFromSql\<close> and \<^verbatim>\<open>create-db-from-sql.js\<close>\<close>

text \<open>
  One materialization run, as far as the target path is concerned: the paths unlinked
  before the replay process is spawned, the argument list of that process, what is at the
  target path when the process opens it (\<open>None\<close> when there is no file), and the result
  reported. \<open>files\<close> maps the paths on disk to their contents; the outcome is what the
  replay process reports.
\<close>

record materialize_run =
  removed :: "string list"
  spawned :: "string list"
  target_at_spawn :: "string option"
  reported :: strategy_result

text \<open>
  The server's function (the same in both server files as far as the target is concerned):
  it stats the script, spawns \<^verbatim>\<open>sqlite3 dbPath\<close> and pipes the script into it. It never
  touches \<open>dbPath\<close> itself.
\<close>

definition createDatabaseFromSql :: "(string \<rightharpoonup> string) \<Rightarrow> proc_outcome \<Rightarrow> string \<Rightarrow> string
    \<Rightarrow> materialize_run" where
  "createDatabaseFromSql files outcome sqlPath dbPath =
     \<lparr>removed = [],
      spawned = [dbPath],
      target_at_spawn = files dbPath,
      reported = (case outcome of
                    Closed code out err \<Rightarrow>
                      if code = 0 then Succeeded
                      else Failed (if err \<noteq> [] then err else ''Database creation failed'')
                  | SpawnError m \<Rightarrow> Failed (''Failed to create database: '' @ m))\<rparr>"

text \<open>
  The standalone script, with its fixed paths: ``Delete existing DB if present'', then the
  same spawn. A failure ends the script with exit status 1.
\<close>

definition create_db_from_sql_script :: "(string \<rightharpoonup> string) \<Rightarrow> proc_outcome \<Rightarrow> materialize_run" where
  "create_db_from_sql_script files outcome =
     (let dbPath = ''uploads/recovered_klopos.db'';
          files' = (if files dbPath \<noteq> None then files(dbPath := None) else files)
      in \<lparr>removed = (if files dbPath \<noteq> None then [dbPath] else []),
          spawned = [dbPath],
          target_at_spawn = files' dbPath,
          reported = (case outcome of
                        Closed code out err \<Rightarrow> if code = 0 then Succeeded else Failed err
                      | SpawnError m \<Rightarrow> Failed m)\<rparr>)"

section \<open>Streaming dump with its watchdogs: \<^verbatim>\<open>tryDumpCommand\<close>\<close>

text \<open>
  What the promise of \<^verbatim>\<open>tryDumpCommand\<close> resolves with: \<^verbatim>\<open>{success: true}\<close>,
  \<^verbatim>\<open>{success: false, error}\<close>, or \<^verbatim>\<open>{success: false, error, timeout: true,
  partialData}\<close> after a kill.
\<close>

datatype dump_result =
  DumpOk
| DumpFailed string
| DumpKilled string bool

definition no_output_20s_msg :: string where
  "no_output_20s_msg = ''Database too corrupted for full dump - switching to table recovery''"

definition no_output_msg :: string where
  "no_output_msg = ''Process produced no output - database may be too corrupted for .dump''"

definition absolute_timeout_msg :: string where
  "absolute_timeout_msg = ''Process stuck on corrupted data - timeout''"

definition stalled_msg :: string where
  "stalled_msg = ''Dump process timeout - database too corrupted for full dump''"

text \<open>The specification's names for the ways a run ends, read off the resolved value.\<close>

datatype watchdog_outcome = COMPLETED | KILLED_NO_OUTPUT | KILLED_STALLED | KILLED_TIMEOUT | FAILED

definition outcome_of :: "dump_result \<Rightarrow> watchdog_outcome" where
  "outcome_of r =
     (case r of
        DumpOk \<Rightarrow> COMPLETED
      | DumpFailed e \<Rightarrow> FAILED
      | DumpKilled e partialData \<Rightarrow>
          if e = no_output_20s_msg \<or> e = no_output_msg then KILLED_NO_OUTPUT
          else if e = stalled_msg then KILLED_STALLED
          else if e = absolute_timeout_msg then KILLED_TIMEOUT
          else FAILED)"

text \<open>
  The variables of one \<^verbatim>\<open>tryDumpCommand\<close> call, with the source's names, and what the
  call has done so far: whether each interval is still armed, the signal sent to the child,
  whether \<^verbatim>\<open>outputStream.end()\<close> was called, and the value the promise was resolved with
  (\<open>None\<close> while it is pending). Times are \<^verbatim>\<open>Date.now()\<close> in milliseconds.
\<close>

record dump_state =
  error_text :: string
  bytesWritten :: nat
  writeError :: "string option"
  lastProgressUpdate :: int
  lastDataReceived :: int
  processComplete :: bool
  lastSignificantProgress :: int
  bytesAtLastCheck :: nat
  lastSignificantSize :: nat
  timeAtLastSignificantSize :: int
  processStartTime :: int
  heartbeatCount :: nat
  heartbeat_armed :: bool
  watchdog_armed :: bool
  killed :: "string option"
  stream_ended :: bool
  settled :: "dump_result option"

definition dump_start :: "int \<Rightarrow> dump_state" where
  "dump_start now =
     \<lparr>error_text = [], bytesWritten = 0, writeError = None,
      lastProgressUpdate = now, lastDataReceived = now, processComplete = False,
      lastSignificantProgress = now, bytesAtLastCheck = 0, lastSignificantSize = 0,
      timeAtLastSignificantSize = now, processStartTime = now, heartbeatCount = 0,
      heartbeat_armed = True, watchdog_armed = True, killed = None, stream_ended = False,
      settled = None\<rparr>"

text \<open>\<^verbatim>\<open>resolve(r)\<close>: only the first call settles a promise.\<close>

definition resolve :: "dump_result \<Rightarrow> dump_state \<Rightarrow> dump_state" where
  "resolve r st = (case settled st of None \<Rightarrow> st\<lparr>settled := Some r\<rparr> | Some r0 \<Rightarrow> st)"

text \<open>
  The events the call has handlers for. \<open>Close code finish\<close> is the child's
  \<^verbatim>\<open>'close'\<close> with its exit code; \<open>finish\<close> says whether the output stream emits
  \<^verbatim>\<open>'finish'\<close> after the \<^verbatim>\<open>end()\<close> the handler calls, which the handler awaits
  before it resolves.
\<close>

datatype dump_event =
  Data nat
| Stderr string
| StreamError string
| ZeroOutputTimer
| WatchdogTick
| HeartbeatTick
| Close int bool
| SpawnFailed string

definition on_data :: "int \<Rightarrow> nat \<Rightarrow> dump_state \<Rightarrow> dump_state" where
  "on_data now len st =
     (let st1 = st\<lparr>bytesWritten := bytesWritten st + len, lastDataReceived := now\<rparr>;
          st2 = (if bytesWritten st1 - lastSignificantSize st1 > 10 * 1024 * 1024
                 then st1\<lparr>lastSignificantSize := bytesWritten st1,
                          timeAtLastSignificantSize := now\<rparr>
                 else st1)
      in if now - lastProgressUpdate st2 > 3000 \<or> bytesWritten st2 mod (50 * 1024 * 1024) < len
         then st2\<lparr>lastProgressUpdate := now\<rparr>
         else st2)"

definition on_zero_output_timer :: "dump_state \<Rightarrow> dump_state" where
  "on_zero_output_timer st =
     (if bytesWritten st = 0 \<and> \<not> processComplete st
      then resolve (DumpKilled no_output_20s_msg False)
             (st\<lparr>processComplete := True, killed := Some ''SIGKILL'', stream_ended := True\<rparr>)
      else st)"

definition on_watchdog :: "int \<Rightarrow> dump_state \<Rightarrow> dump_state" where
  "on_watchdog now st =
     (if processComplete st then st
      else
        let timeSinceSignificant = Math_round_div (now - timeAtLastSignificantSize st) 1000;
            timeSinceStart = Math_round_div (now - processStartTime st) 1000
        in if bytesWritten st = 0 \<and> timeSinceStart \<ge> 15 then
             resolve (DumpKilled no_output_msg False)
               (st\<lparr>processComplete := True, heartbeat_armed := False, watchdog_armed := False,
                   killed := Some ''SIGKILL'', stream_ended := True\<rparr>)
           else if timeSinceSignificant \<ge> 180 \<and> bytesWritten st > 0 then
             resolve (DumpKilled absolute_timeout_msg (bytesWritten st > 0))
               (st\<lparr>processComplete := True, heartbeat_armed := False, watchdog_armed := False,
                   killed := Some ''SIGKILL'', stream_ended := True\<rparr>)
           else st)"

definition on_heartbeat :: "int \<Rightarrow> dump_state \<Rightarrow> dump_state" where
  "on_heartbeat now st =
     (let st1 = st\<lparr>heartbeatCount := Suc (heartbeatCount st)\<rparr>
      in if processComplete st1 then st1
         else
           let progressSinceLastCheck = bytesWritten st1 - bytesAtLastCheck st1;
               st2 = (if progressSinceLastCheck > 1024 * 1024
                      then st1\<lparr>lastSignificantProgress := now,
                               bytesAtLastCheck := bytesWritten st1\<rparr>
                      else st1);
               timeSinceProgress = Math_round_div (now - lastSignificantProgress st2) 1000
           in if timeSinceProgress > 120 \<and> bytesWritten st2 > 0 then
                resolve (DumpKilled stalled_msg (bytesWritten st2 > 0))
                  (st2\<lparr>processComplete := True, heartbeat_armed := False,
                       killed := Some ''SIGTERM'', stream_ended := True\<rparr>)
              else st2)"

definition on_close :: "int \<Rightarrow> bool \<Rightarrow> dump_state \<Rightarrow> dump_state" where
  "on_close code finish st =
     (let st1 = st\<lparr>processComplete := True, heartbeat_armed := False, watchdog_armed := False,
                   stream_ended := True\<rparr>
      in if \<not> finish then st1
         else case writeError st1 of
                Some e \<Rightarrow> resolve (DumpFailed e) st1
              | None \<Rightarrow>
                  if code = 0 \<and> bytesWritten st1 > 0 then resolve DumpOk st1
                  else resolve (DumpFailed (if error_text st1 \<noteq> [] then error_text st1
                                            else ''No data recovered'')) st1)"

definition on_spawn_failed :: "string \<Rightarrow> dump_state \<Rightarrow> dump_state" where
  "on_spawn_failed m st =
     resolve (DumpFailed m)
       (st\<lparr>processComplete := True, heartbeat_armed := False, watchdog_armed := False,
           stream_ended := True\<rparr>)"

text \<open>A cleared interval no longer calls its handler.\<close>

definition on_event :: "int \<Rightarrow> dump_event \<Rightarrow> dump_state \<Rightarrow> dump_state" where
  "on_event now ev st =
     (case ev of
        Data len \<Rightarrow> on_data now len st
      | Stderr m \<Rightarrow> st\<lparr>error_text := error_text st @ m\<rparr>
      | StreamError m \<Rightarrow> st\<lparr>writeError := Some m\<rparr>
      | ZeroOutputTimer \<Rightarrow> on_zero_output_timer st
      | WatchdogTick \<Rightarrow> if watchdog_armed st then on_watchdog now st else st
      | HeartbeatTick \<Rightarrow> if heartbeat_armed st then on_heartbeat now st else st
      | Close code finish \<Rightarrow> on_close code finish st
      | SpawnFailed m \<Rightarrow> on_spawn_failed m st)"

text \<open>
  The monitored child: its stdout chunks in order (arrival time and length of the k-th,
  \<open>None\<close> when there are no more), the failure of the output stream if any, and its own
  exit if any (time, exit code, and whether the output stream then finishes).
\<close>

record child =
  chunks :: "nat \<Rightarrow> (int \<times> nat) option"
  stream_error :: "(int \<times> string) option"
  exit :: "(int \<times> int \<times> bool) option"

text \<open>
  The event loop around the call, with timers that fire exactly when they are due: the
  twenty-second timeout, the watchdog every 15 s and the heartbeat every 10 s after the
  start.
\<close>

record loop =
  vars :: dump_state
  zero_timer :: "int option"
  next_watchdog :: int
  next_heartbeat :: int
  next_chunk :: nat
  stream_failed :: bool
  exited :: bool

definition boot :: "int \<Rightarrow> loop" where
  "boot now =
     \<lparr>vars = dump_start now, zero_timer = Some (now + 20000), next_watchdog = now + 15000,
      next_heartbeat = now + 10000, next_chunk = 0, stream_failed = False, exited = False\<rparr>"

text \<open>
  What is due next, as (time, event, loop after taking it) candidates in the order in which
  simultaneous events are taken: the child's own events first, then the timers in the order
  the source registers them. A signalled or exited child emits nothing more.
\<close>

definition candidates :: "child \<Rightarrow> loop \<Rightarrow> (int \<times> dump_event \<times> loop) list" where
  "candidates c m =
     (if exited m \<or> killed (vars m) \<noteq> None then []
      else
        (case chunks c (next_chunk m) of
           None \<Rightarrow> []
         | Some (t, len) \<Rightarrow> [(t, Data len, m\<lparr>next_chunk := Suc (next_chunk m)\<rparr>)])
        @ (case stream_error c of
             None \<Rightarrow> []
           | Some (t, e) \<Rightarrow>
               if stream_failed m then [] else [(t, StreamError e, m\<lparr>stream_failed := True\<rparr>)])
        @ (case exit c of
             None \<Rightarrow> []
           | Some (t, code, finish) \<Rightarrow> [(t, Close code finish, m\<lparr>exited := True\<rparr>)]))
     @ (case zero_timer m of
          None \<Rightarrow> []
        | Some t \<Rightarrow> [(t, ZeroOutputTimer, m\<lparr>zero_timer := None\<rparr>)])
     @ (if watchdog_armed (vars m)
        then [(next_watchdog m, WatchdogTick, m\<lparr>next_watchdog := next_watchdog m + 15000\<rparr>)]
        else [])
     @ (if heartbeat_armed (vars m)
        then [(next_heartbeat m, HeartbeatTick, m\<lparr>next_heartbeat := next_heartbeat m + 10000\<rparr>)]
        else [])"

fun earliest :: "(int \<times> 'a) list \<Rightarrow> (int \<times> 'a) option" where
  "earliest [] = None"
| "earliest (x # xs) =
     (case earliest xs of
        None \<Rightarrow> Some x
      | Some y \<Rightarrow> if fst y < fst x then Some y else Some x)"

text \<open>
  The run: events are taken in time order until the promise is settled; the answer is the
  time of settlement and the state then. \<open>None\<close> is a promise still pending when the fuel
  is used up, or one that nothing can settle any more.
\<close>

fun run_loop :: "nat \<Rightarrow> child \<Rightarrow> loop \<Rightarrow> (int \<times> dump_state) option" where
  "run_loop 0 c m = None"
| "run_loop (Suc n) c m =
     (case earliest (candidates c m) of
        None \<Rightarrow> None
      | Some (t, ev, m') \<Rightarrow>
          (case settled (on_event t ev (vars m')) of
             Some r \<Rightarrow> Some (t, on_event t ev (vars m'))
           | None \<Rightarrow> run_loop n c (m'\<lparr>vars := on_event t ev (vars m')\<rparr>)))"

definition verdict :: "nat \<Rightarrow> child \<Rightarrow> int \<Rightarrow> (int \<times> dump_result \<times> string option) option" where
  "verdict fuel c now =
     (case run_loop fuel c (boot now) of
        None \<Rightarrow> None
      | Some (t, st) \<Rightarrow>
          (case settled st of None \<Rightarrow> None | Some r \<Rightarrow> Some (t, r, killed st)))"

text \<open>
  Children for the examples: one that emits a byte every 200 s, the first at once; one
  that emits a byte every 200 s, the first after 200 s; one that writes 100 bytes and exits
  cleanly after the output stream has failed.
\<close>

definition slow_child :: "int \<Rightarrow> child" where
  "slow_child first = \<lparr>chunks = (\<lambda>k. Some (first + 200000 * int k, 1)), stream_error = None,
                         exit = None\<rparr>"

definition child_with_failed_stream :: child where
  "child_with_failed_stream =
     \<lparr>chunks = (\<lambda>k. if k = 0 then Some (1000, 100) else None),
      stream_error = Some (2000, ''ENOSPC: no space left on device''),
      exit = Some (5000, 0, False)\<rparr>"


section \<open>Notions used to state the properties of the chain\<close>




text \<open>
  A run of attempts follows an order of strategies when it goes through an initial part of
  the order, one attempt each, and every attempt but the last reported failure.
\<close>

definition fallback_run :: "strategy list \<Rightarrow> (strategy \<times> bool) list \<Rightarrow> bool" where
  "fallback_run order run =
     ((\<exists>n. map fst run = take n order) \<and> list_all (\<lambda>a. \<not> snd a) (butlast run))"

text \<open>
  \<open>grows x s s'\<close>: from \<open>s\<close> to \<open>s'\<close> processes were spawned, none with the argument
  list \<open>x\<close>, and no strategy was logged. \<open>steps_from x s R run\<close>: the call that returned
  \<open>R\<close> from \<open>s\<close> spawned no \<open>x\<close> and logged exactly \<open>run\<close>, whose last entry is the
  result's success. \<open>foreign ip x\<close>: \<open>x\<close> is none of the argument lists the fallback
  strategies use on the input \<open>ip\<close>.
\<close>

definition grows :: "string list \<Rightarrow> session \<Rightarrow> session \<Rightarrow> bool" where
  "grows x s s' =
     ((\<exists>more. spawns s' = spawns s @ more \<and> x \<notin> set more) \<and> attempts s' = attempts s)"

definition steps_from :: "string list \<Rightarrow> session \<Rightarrow> strategy_result \<times> session
    \<Rightarrow> (strategy \<times> bool) list \<Rightarrow> bool" where
  "steps_from x s R run =
     ((\<exists>more. spawns (snd R) = spawns s @ more \<and> x \<notin> set more) \<and>
      attempts (snd R) = attempts s @ run \<and>
      (run \<noteq> [] \<longrightarrow> snd (last run) = success (fst R)))"

definition foreign :: "string \<Rightarrow> string list \<Rightarrow> bool" where
  "foreign ip x = (x \<noteq> [ip, ''-json'', names_query] \<and> (\<forall>t. x \<noteq> dump_argv ip t) \<and>
     x \<noteq> [ip, ''.schema''] \<and> x \<noteq> [ip, ''.tables''])"





section \<open>Properties\<close>

subsection \<open>Status probe\<close>

lemma sqlFiles_set:
  "set (sqlFiles dir) = {e \<in> set dir. is_recovery_sql (name e)}"
  by (auto simp: sqlFiles_def)

lemma sqlFiles_head_newest:
  assumes "sqlFiles dir = f # rest" and "g \<in> set (sqlFiles dir)"
  shows "mtime g \<le> mtime f"
proof -
  have "sorted (map (\<lambda>a. - mtime a) (sqlFiles dir))"
    by (simp add: sqlFiles_def)
  with assms have "\<forall>h \<in> set rest. - mtime f \<le> - mtime h"
    by simp
  with assms show ?thesis by auto
qed

lemma startsWith_prefix: "startsWith s p = prefix p s"
proof
  assume "startsWith s p"
  then have "s = p @ drop (length p) s"
    by (metis append_take_drop_id startsWith_def)
  then show "prefix p s" unfolding prefix_def by blast
next
  assume "prefix p s"
  then obtain zs where "s = p @ zs" unfolding prefix_def by blast
  then show "startsWith s p" by (simp add: startsWith_def)
qed

lemma endsWith_suffix: "endsWith s p = suffix p s"
proof
  assume "endsWith s p"
  then have "s = take (length s - length p) s @ p"
    by (metis append_take_drop_id endsWith_def)
  then show "suffix p s" unfolding suffix_def by blast
next
  assume "suffix p s"
  then obtain zs where "s = zs @ p" unfolding suffix_def by blast
  then show "endsWith s p" by (simp add: endsWith_def)
qed

lemma is_recovery_sql_iff: "is_recovery_sql (name f) = recovery_sql_file f"
  by (simp add: is_recovery_sql_def recovery_sql_file_def startsWith_prefix endsWith_suffix)

lemma ageSeconds_ms: "ageSeconds now f = (now - mtime f + 500) div 1000"
proof -
  have "2 * (now - mtime f) + 1000 = 2 * (now - mtime f + 500)" by simp
  then have "(2 * (now - mtime f) + 1000) div (2 * 1000) = (now - mtime f + 500) div 1000"
    by (simp only: div_mult_mult1)
  then show ?thesis by (simp add: ageSeconds_def Math_round_div_def)
qed

lemma rounded_age_threshold:
  fixes x :: int
  shows "((x + 500) div 1000 \<le> 120) = (x < 120500)"
    and "(120 < (x + 500) div 1000) = (120500 \<le> x)"
proof -
  define q r where "q = (x + 500) div 1000" and "r = (x + 500) mod 1000"
  have "x + 500 = 1000 * q + r" "0 \<le> r" "r < 1000"
    by (simp_all add: q_def r_def)
  then show "((x + 500) div 1000 \<le> 120) = (x < 120500)"
    and "(120 < (x + 500) div 1000) = (120500 \<le> x)"
    unfolding q_def [symmetric] by linarith+
qed

text \<open>
  C10, as the code has it. With the uploads directory listed as \<open>dir\<close>: when it holds a
  recovery SQL file, the probe reports on one with the greatest modification time; the age
  it reports is the file's age rounded to the nearest second, halves upwards, so
  \<open>isActive\<close> is true exactly when the file is less than 120.5 s old and \<open>isStuck\<close>
  exactly when it is 120.5 s old or older, and exactly one flag is true; when it holds
  none, both flags are false.
\<close>

theorem status_probe_rounds_age:
  "\<exists>r. api_status now (Inr dir) = Inr r \<and>
     (if \<forall>e \<in> set dir. \<not> recovery_sql_file e
      then \<not> isActive r \<and> \<not> isStuck r
      else \<exists>f \<in> set dir. recovery_sql_file f \<and>
             (\<forall>g \<in> set dir. recovery_sql_file g \<longrightarrow> mtime g \<le> mtime f) \<and>
             fileName r = Some (name f) \<and>
             idleSeconds r = Some ((now - mtime f + 500) div 1000) \<and>
             isActive r = (now - mtime f < 120500) \<and>
             isStuck r = (120500 \<le> now - mtime f) \<and>
             isActive r \<noteq> isStuck r)"
proof (cases "sqlFiles dir")
  case Nil
  then have "set (sqlFiles dir) = {}" by simp
  then have "\<forall>e \<in> set dir. \<not> recovery_sql_file e"
    by (auto simp: sqlFiles_set is_recovery_sql_iff)
  with Nil show ?thesis
    by (simp add: api_status_def)
next
  case (Cons f rest)
  then have mem: "f \<in> set (sqlFiles dir)" by simp
  then have f: "f \<in> set dir" "recovery_sql_file f"
    by (simp_all add: sqlFiles_set is_recovery_sql_iff)
  then have ne: "\<not> (\<forall>e \<in> set dir. \<not> recovery_sql_file e)"
    by blast
  have newest: "\<forall>g \<in> set dir. recovery_sql_file g \<longrightarrow> mtime g \<le> mtime f"
    using sqlFiles_head_newest [OF Cons] by (simp add: sqlFiles_set is_recovery_sql_iff)
  define R where "R = \<lparr>isActive = (now - mtime f < 120500), isStuck = (120500 \<le> now - mtime f),
           message = None, fileName = Some (name f),
           fileSizeMB = Some (Math_round_div (int (size_bytes f)) (1024 * 1024)),
           idleSeconds = Some ((now - mtime f + 500) div 1000)\<rparr>"
  have r: "api_status now (Inr dir) = Inr R"
    using Cons by (simp add: api_status_def ageSeconds_ms rounded_age_threshold R_def)
  have "recovery_sql_file f \<and>
        (\<forall>g \<in> set dir. recovery_sql_file g \<longrightarrow> mtime g \<le> mtime f) \<and>
        fileName R = Some (name f) \<and>
        idleSeconds R = Some ((now - mtime f + 500) div 1000) \<and>
        isActive R = (now - mtime f < 120500) \<and>
        isStuck R = (120500 \<le> now - mtime f) \<and>
        isActive R \<noteq> isStuck R"
    using f(2) newest by (auto simp: R_def)
  with f(1) have "\<exists>f \<in> set dir. recovery_sql_file f \<and>
        (\<forall>g \<in> set dir. recovery_sql_file g \<longrightarrow> mtime g \<le> mtime f) \<and>
        fileName R = Some (name f) \<and>
        idleSeconds R = Some ((now - mtime f + 500) div 1000) \<and>
        isActive R = (now - mtime f < 120500) \<and>
        isStuck R = (120500 \<le> now - mtime f) \<and>
        isActive R \<noteq> isStuck R"
    by (rule bexI [rotated])
  with ne r show ?thesis
    by (intro exI [of _ R]) (simp only: if_False simp_thms)
qed

text \<open>
  C10 as stated fails: a recovery SQL file that is 120.499 s old, more than 120 seconds, is
  reported active and not stuck.
\<close>

theorem status_probe_active_past_120s:
  "api_status 121499 (Inr [\<lparr>name = ''recovery_1_a.sql'', mtime = 1000, size_bytes = 10\<rparr>]) =
     Inr \<lparr>isActive = True, isStuck = False, message = None,
          fileName = Some ''recovery_1_a.sql'', fileSizeMB = Some 0, idleSeconds = Some 120\<rparr> \<and>
   (120000 :: int) < 121499 - 1000"
  by (simp add: api_status_def sqlFiles_def is_recovery_sql_def startsWith_def endsWith_def
      ageSeconds_def Math_round_div_def)

theorem status_probe_rounds_age_witness:
  "api_status 125500
     (Inr [\<lparr>name = ''recovery_1_a.sql'', mtime = 1000, size_bytes = 10\<rparr>,
           \<lparr>name = ''notes.txt'', mtime = 900000, size_bytes = 1\<rparr>,
           \<lparr>name = ''manual_recovery_2_b.sql'', mtime = 5000, size_bytes = 3000000\<rparr>,
           \<lparr>name = ''recovery_9.txt'', mtime = 800000, size_bytes = 1\<rparr>,
           \<lparr>name = ''my_recovery_3.sql'', mtime = 700000, size_bytes = 1\<rparr>]) =
   Inr \<lparr>isActive = False, isStuck = True, message = None,
        fileName = Some ''manual_recovery_2_b.sql'', fileSizeMB = Some 3,
        idleSeconds = Some 121\<rparr>"
  using status_probe_rounds_age [of 125500
     "[\<lparr>name = ''recovery_1_a.sql'', mtime = 1000, size_bytes = 10\<rparr>,
       \<lparr>name = ''notes.txt'', mtime = 900000, size_bytes = 1\<rparr>,
       \<lparr>name = ''manual_recovery_2_b.sql'', mtime = 5000, size_bytes = 3000000\<rparr>,
       \<lparr>name = ''recovery_9.txt'', mtime = 800000, size_bytes = 1\<rparr>,
       \<lparr>name = ''my_recovery_3.sql'', mtime = 700000, size_bytes = 1\<rparr>]"]
  by (simp add: api_status_def sqlFiles_def is_recovery_sql_def startsWith_def endsWith_def
      ageSeconds_def Math_round_div_def)

subsection \<open>Artifact retrieval\<close>

lemma download_rejected_no_fs:
  assumes "\<not> startsWith (path_resolve cwd (path_join ''uploads'' filename))
                         (path_resolve cwd ''uploads'')"
  shows "download cwd exists filename = ([], Forbidden403)"
  using assms by (simp add: download_def Let_def)

lemma download_fs_only_after_check:
  assumes "fst (download cwd exists filename) \<noteq> []"
  shows "startsWith (path_resolve cwd (path_join ''uploads'' filename))
                    (path_resolve cwd ''uploads'')"
  using assms by (auto simp: download_def Let_def split: if_splits)

text \<open>
  C8. The claim is that every identifier whose joined path resolves outside the uploads
  directory is rejected before the file system is touched. The handler compares the two
  resolved paths as strings (\<^verbatim>\<open>startsWith\<close>), so a sibling directory whose name merely
  begins with \<^verbatim>\<open>uploads\<close> passes the check. With the server in \<^verbatim>\<open>/app\<close>, the
  identifier \<^verbatim>\<open>../uploads_old/secret.db\<close> resolves to
  \<^verbatim>\<open>/app/uploads_old/secret.db\<close>, which is not inside \<^verbatim>\<open>/app/uploads\<close>, and the
  handler checks, streams and later deletes that file.
\<close>

theorem download_prefix_escape:
  "path_resolve ''/app'' (path_join ''uploads'' ''../uploads_old/secret.db'')
     = ''/app/uploads_old/secret.db'' \<and>
   path_resolve ''/app'' ''uploads'' = ''/app/uploads'' \<and>
   \<not> resolves_inside ''/app/uploads'' ''/app/uploads_old/secret.db'' \<and>
   download ''/app'' (\<lambda>p. True) ''../uploads_old/secret.db'' =
     ([Access ''uploads_old/secret.db'', CreateReadStream ''uploads_old/secret.db'',
       Unlink ''uploads_old/secret.db''],
      StreamFile ''application/x-sqlite3'' ''uploads_old/secret.db'')"
  by code_simp

subsection \<open>Recovery submission\<close>

lemma recover_failure_deletes_upload:
  assumes "api_recover w sessionId (Some f) files = (files', Json500 m)"
  shows "file_path f \<notin> files'"
  using assms
  by (auto simp: api_recover_def recover_catch_def handler_scope_def unlink_quietly_def
      unlink_def recover_try_def recover_run_def Let_def
      split: prod.splits sum.splits option.splits if_splits)

text \<open>
  C1. The claim is that every failing run deletes both the uploaded file and any
  ZIP-extracted substitute before the error response. The uploaded file is always deleted
  (\<open>recover_failure_deletes_upload\<close>), but the \<^verbatim>\<open>catch\<close> block tests
  \<^verbatim>\<open>typeof inputPath !== 'undefined'\<close> on a variable that only the \<^verbatim>\<open>try\<close> block
  declares, so the test is false and the extracted file is never unlinked. Here a ZIP is
  uploaded, extraction succeeds, recovery fails: the response is the 500 and the extracted
  file is still on disk.
\<close>

theorem recover_failure_leaks_extracted:
  "api_recover
     \<lparr>timestamp = ''17'', extracted = Some (''uploads/extracted_17_app.db'', ''app''),
      recoveryResult = (False, ''All tables failed to recover''),
      dbCreationResult = (True, [])\<rparr>
     ''s1''
     (Some \<lparr>file_path = ''uploads/corrupt_17_db.zip'', originalname = ''db.zip''\<rparr>)
     {''uploads/corrupt_17_db.zip''}
   = ({''uploads/extracted_17_app.db''}, Json500 ''All tables failed to recover'')"
  by code_simp

subsection \<open>The sessions' logs only grow\<close>

lemma grows_refl: "grows x s s"
  by (simp add: grows_def)

lemma grows_trans: "grows x a b \<Longrightarrow> grows x b c \<Longrightarrow> grows x a c"
  by (auto simp: grows_def)

lemma grows_spawn: "x \<noteq> argv \<Longrightarrow> grows x s (spawn argv s)"
  by (simp add: grows_def spawn_def)

lemma grows_writeFile:
  "writeFile env c s = Inr s' \<Longrightarrow> grows x s s'"
  "writeFile env c s = Inl (e, s') \<Longrightarrow> grows x s s'"
  by (auto simp: writeFile_def grows_def split: option.splits)

lemma grows_appendFile:
  "appendFile env c s = Inr s' \<Longrightarrow> grows x s s'"
  "appendFile env c s = Inl (e, s') \<Longrightarrow> grows x s s'"
  by (auto simp: appendFile_def grows_def split: option.splits)

lemma grows_table_loop:
  assumes "\<forall>t. x \<noteq> dump_argv ip t"
  shows "table_loop env ip ts sc ft s = Inr (sc', ft', s') \<Longrightarrow> grows x s s'"
    and "table_loop env ip ts sc ft s = Inl (e, s') \<Longrightarrow> grows x s s'"
proof (induction ts arbitrary: sc ft s)
  case Nil
  { case 1 then show ?case by (simp add: grows_refl) }
  { case 2 then show ?case by simp }
next
  case (Cons t ts)
  have sp: "grows x s (spawn (dump_argv ip t) s)" for s
    using assms by (simp add: grows_spawn)
  { case 1
    then show ?case
      by (auto split: table_result.splits sum.splits
          dest!: Cons.IH(1) grows_appendFile(1) [where x = x] intro: grows_trans sp) }
  { case 2
    then show ?case
      by (auto split: table_result.splits sum.splits
          dest!: Cons.IH(2) grows_appendFile [where x = x] intro: grows_trans sp) }
qed

lemma grows_tryTableByTableRecovery:
  assumes "foreign ip x"
  shows "grows x s (snd (tryTableByTableRecovery env ip s))"
proof -
  have a: "\<forall>t. x \<noteq> dump_argv ip t" and b: "x \<noteq> [ip, ''-json'', names_query]"
    using assms by (simp_all add: foreign_def)
  have sp: "grows x s (spawn [ip, ''-json'', names_query] s)"
    using b by (simp add: grows_spawn)
  show ?thesis
    by (auto simp: tryTableByTableRecovery_def sp
        split: option.splits sum.splits prod.splits
        dest!: grows_writeFile [where x = x] grows_appendFile [where x = x]
               grows_table_loop [OF a]
        intro: grows_trans [OF sp])
       (blast intro: grows_trans [OF sp] grows_trans)+
qed

lemma grows_trySchemaExtraction:
  assumes "foreign ip x"
  shows "grows x s (snd (trySchemaExtraction env ip s))"
proof -
  have sp: "grows x s (spawn [ip, ''.schema''] s)"
    using assms by (simp add: grows_spawn foreign_def)
  show ?thesis
    by (auto simp: trySchemaExtraction_def sp split: proc_outcome.splits sum.splits prod.splits
        dest!: grows_writeFile [where x = x] intro: grows_trans [OF sp])
qed

lemma grows_tryBasicExtraction:
  assumes "foreign ip x"
  shows "grows x s (snd (tryBasicExtraction env ip s))"
proof -
  have sp: "grows x s (spawn [ip, ''.tables''] s)"
    using assms by (simp add: grows_spawn foreign_def)
  show ?thesis
    by (auto simp: tryBasicExtraction_def sp split: proc_outcome.splits sum.splits prod.splits
        dest!: grows_writeFile [where x = x] intro: grows_trans [OF sp])
qed


subsection \<open>The order of the fallback strategies\<close>

lemma steps_from_step:
  assumes "grows x s s1" and "steps_from x (attempted st False s1) R run" and "run \<noteq> []"
  shows "steps_from x s R ((st, False) # run)"
  using assms by (auto simp: steps_from_def grows_def attempted_def)

lemma steps_from_last:
  assumes "grows x s s1"
  shows "steps_from x s (r, attempted st (success r) s1) [(st, success r)]"
  using assms by (auto simp: steps_from_def grows_def attempted_def)

lemma fallback_run_Cons:
  assumes "fallback_run order run" and "run \<noteq> []"
  shows "fallback_run (st # order) ((st, False) # run)"
proof -
  from assms obtain n where "map fst run = take n order"
    by (auto simp: fallback_run_def)
  then have "map fst ((st, False) # run) = take (Suc n) (st # order)" by simp
  moreover have "list_all (\<lambda>a. \<not> snd a) (butlast ((st, False) # run))"
    using assms by (simp add: fallback_run_def)
  ultimately show ?thesis unfolding fallback_run_def by blast
qed

lemma fallback_run_single: "fallback_run (st # order) [(st, b)]"
  by (auto simp: fallback_run_def intro: exI [of _ 1])




text \<open>
  Both files' \<^verbatim>\<open>tryAlternativeRecovery\<close> have the same shape: a first strategy, then
  the schema, then the table list.
\<close>

lemma three_step_chain:
  assumes def: "\<And>s. alt s =
     (case first s of
        (r1, s1) \<Rightarrow>
          if success r1 then (r1, attempted st1 True s1)
          else
            (case trySchemaExtraction env ip (attempted st1 False s1) of
               (r2, s2) \<Rightarrow>
                 if success r2 then (r2, attempted SchemaOnly True s2)
                 else
                   (case tryBasicExtraction env ip (attempted SchemaOnly False s2) of
                      (r3, s3) \<Rightarrow> (r3, attempted TableListOnly (success r3) s3))))"
    and first: "\<And>s. grows x s (snd (first s))"
    and x: "foreign ip x"
  shows "\<exists>run. steps_from x s (alt s) run \<and> run \<noteq> [] \<and>
           fallback_run [st1, SchemaOnly, TableListOnly] run"
proof -
  obtain r1 s1 where f: "first s = (r1, s1)" by (cases "first s")
  have g1: "grows x s s1" using first [of s] f by simp
  show ?thesis
  proof (cases "success r1")
    case True
    then have "alt s = (r1, attempted st1 (success r1) s1)" by (simp add: def f)
    then have "steps_from x s (alt s) [(st1, success r1)]"
      using steps_from_last [OF g1] by simp
    moreover have "fallback_run [st1, SchemaOnly, TableListOnly] [(st1, success r1)]"
      by (rule fallback_run_single)
    ultimately show ?thesis by blast
  next
    case r1: False
    obtain r2 s2 where sc: "trySchemaExtraction env ip (attempted st1 False s1) = (r2, s2)"
      by (cases "trySchemaExtraction env ip (attempted st1 False s1)")
    have g2: "grows x (attempted st1 False s1) s2"
      using grows_trySchemaExtraction [OF x, of "attempted st1 False s1" env] sc by simp
    show ?thesis
    proof (cases "success r2")
      case True
      then have "alt s = (r2, attempted SchemaOnly (success r2) s2)"
        by (simp add: def f r1 sc)
      then have "steps_from x (attempted st1 False s1) (alt s) [(SchemaOnly, success r2)]"
        using steps_from_last [OF g2] by simp
      then have "steps_from x s (alt s) [(st1, False), (SchemaOnly, success r2)]"
        using steps_from_step [OF g1] by blast
      moreover have "fallback_run [st1, SchemaOnly, TableListOnly]
                       [(st1, False), (SchemaOnly, success r2)]"
        by (intro fallback_run_Cons fallback_run_single) simp
      ultimately show ?thesis by blast
    next
      case r2: False
      obtain r3 s3 where ba: "tryBasicExtraction env ip (attempted SchemaOnly False s2) = (r3, s3)"
        by (cases "tryBasicExtraction env ip (attempted SchemaOnly False s2)")
      have g3: "grows x (attempted SchemaOnly False s2) s3"
        using grows_tryBasicExtraction [OF x, of "attempted SchemaOnly False s2" env] ba by simp
      have "alt s = (r3, attempted TableListOnly (success r3) s3)"
        by (simp add: def f r1 sc r2 ba)
      then have "steps_from x (attempted SchemaOnly False s2) (alt s) [(TableListOnly, success r3)]"
        using steps_from_last [OF g3] by simp
      then have "steps_from x (attempted st1 False s1) (alt s)
                   [(SchemaOnly, False), (TableListOnly, success r3)]"
        using steps_from_step [OF g2] by blast
      then have "steps_from x s (alt s)
                   [(st1, False), (SchemaOnly, False), (TableListOnly, success r3)]"
        using steps_from_step [OF g1] by blast
      moreover have "fallback_run [st1, SchemaOnly, TableListOnly]
                       [(st1, False), (SchemaOnly, False), (TableListOnly, success r3)]"
        by (intro fallback_run_Cons fallback_run_single) simp_all
      ultimately show ?thesis by blast
    qed
  qed
qed

lemma tryAlternativeRecovery_run:
  assumes "foreign ip x"
  shows "\<exists>run. steps_from x s (tryAlternativeRecovery env ip s) run \<and> run \<noteq> [] \<and>
           fallback_run [TableByTable, SchemaOnly, TableListOnly] run"
  by (rule three_step_chain [where first = "tryTableByTableRecovery env ip" and env = env
        and ip = ip and alt = "tryAlternativeRecovery env ip"])
     (simp_all add: tryAlternativeRecovery_def grows_tryTableByTableRecovery assms)







lemma foreign_Nil: "foreign ip []"
  by (simp add: foreign_def dump_argv_def)


















subsection \<open>The streaming dump's watchdogs\<close>

lemma run_loop_numeral:
  "run_loop (numeral k) c m =
     (case earliest (candidates c m) of
        None \<Rightarrow> None
      | Some (t, ev, m') \<Rightarrow>
          (case settled (on_event t ev (vars m')) of
             Some r \<Rightarrow> Some (t, on_event t ev (vars m'))
           | None \<Rightarrow> run_loop (pred_numeral k) c (m'\<lparr>vars := on_event t ev (vars m')\<rparr>)))"
  by (simp add: numeral_eq_Suc)

lemmas sim = verdict_def boot_def dump_start_def candidates_def on_event_def on_heartbeat_def
  on_watchdog_def on_zero_output_timer_def on_data_def on_close_def resolve_def
  Math_round_div_def Let_def

lemma run_loop_mono:
  "run_loop n c m = Some r \<Longrightarrow> run_loop (n + k) c m = Some r"
proof (induction n arbitrary: m)
  case 0
  then show ?case by simp
next
  case (Suc n)
  then show ?case
    by (auto split: option.splits prod.splits)
qed

lemma verdict_mono:
  assumes "verdict n c now = Some v" and "n \<le> fuel"
  shows "verdict fuel c now = Some v"
proof -
  from assms(1) obtain r where r: "run_loop n c (boot now) = Some r"
    by (auto simp: verdict_def split: option.splits)
  from assms(2) obtain k where "fuel = n + k"
    using le_Suc_ex by blast
  with run_loop_mono [OF r, of k] have "run_loop fuel c (boot now) = run_loop n c (boot now)"
    using r by simp
  with assms(1) show ?thesis by (simp add: verdict_def)
qed

lemma run_loop_idle: "candidates c m = [] \<Longrightarrow> run_loop n c m = None"
  by (cases n) simp_all









lemma no_output_handlers:
  assumes "bytesWritten st = 0" and "\<not> processComplete st" and "settled st = None"
  shows "14500 \<le> now - processStartTime st \<Longrightarrow>
           settled (on_watchdog now st) = Some (DumpKilled no_output_msg False) \<and>
           killed (on_watchdog now st) = Some ''SIGKILL''"
    and "settled (on_zero_output_timer st) = Some (DumpKilled no_output_20s_msg False) \<and>
         killed (on_zero_output_timer st) = Some ''SIGKILL''"
  using assms by (simp_all add: on_watchdog_def on_zero_output_timer_def resolve_def
      Math_round_div_def Let_def)

text \<open>
  C5, as the code has it. A child that emits one byte every 200 s never reaches the
  absolute ceiling. When its first byte comes at once, the heartbeat's stall detector
  (less than 1 MB of progress for more than 120 s) sends SIGTERM at the 130 s heartbeat,
  50 s before the 180 s ceiling could apply; when its first byte comes after 200 s, the
  no-output check kills it at 15 s.
\<close>

theorem slow_child_never_reaches_ceiling:
  "(23 \<le> fuel \<longrightarrow>
      verdict fuel (slow_child 0) 0 = Some (130000, DumpKilled stalled_msg True, Some ''SIGTERM'')) \<and>
   (2 \<le> fuel \<longrightarrow>
      verdict fuel (slow_child 200000) 0
        = Some (15000, DumpKilled no_output_msg False, Some ''SIGKILL'')) \<and>
   outcome_of (DumpKilled stalled_msg True) = KILLED_STALLED \<and>
   outcome_of (DumpKilled no_output_msg False) = KILLED_NO_OUTPUT"
proof (intro conjI impI)
  have "verdict 23 (slow_child 0) 0 = Some (130000, DumpKilled stalled_msg True, Some ''SIGTERM'')"
    by (simp add: sim run_loop_numeral slow_child_def)
  then show "verdict fuel (slow_child 0) 0
      = Some (130000, DumpKilled stalled_msg True, Some ''SIGTERM'')" if "23 \<le> fuel"
    using that by (rule verdict_mono)
  have "verdict 2 (slow_child 200000) 0
      = Some (15000, DumpKilled no_output_msg False, Some ''SIGKILL'')"
    by (simp add: sim run_loop_numeral slow_child_def)
  then show "verdict fuel (slow_child 200000) 0
      = Some (15000, DumpKilled no_output_msg False, Some ''SIGKILL'')" if "2 \<le> fuel"
    using that by (rule verdict_mono)
  show "outcome_of (DumpKilled stalled_msg True) = KILLED_STALLED"
    by (simp add: outcome_of_def stalled_msg_def no_output_msg_def no_output_20s_msg_def)
  show "outcome_of (DumpKilled no_output_msg False) = KILLED_NO_OUTPUT"
    by (simp add: outcome_of_def)
qed

text \<open>
  C5 as stated fails: the run of such a child ends with the stall result, not with the
  absolute-ceiling result.
\<close>

theorem slow_child_is_stalled:
  "verdict 23 (slow_child 0) 0 = Some (130000, DumpKilled stalled_msg True, Some ''SIGTERM'') \<and>
   outcome_of (DumpKilled stalled_msg True) \<noteq> KILLED_TIMEOUT"
  by (simp add: sim run_loop_numeral slow_child_def outcome_of_def stalled_msg_def
      no_output_msg_def no_output_20s_msg_def)

theorem slow_child_never_reaches_ceiling_witness:
  "verdict 40 (slow_child 0) 0 = Some (130000, DumpKilled stalled_msg True, Some ''SIGTERM'') \<and>
   verdict 40 (slow_child 200000) 0 = Some (15000, DumpKilled no_output_msg False, Some ''SIGKILL'')"
  using slow_child_never_reaches_ceiling [of 40] by simp

text \<open>
  C9. The claim is that every wrapper always resolves. \<^verbatim>\<open>tryDumpCommand\<close>'s
  \<^verbatim>\<open>'close'\<close> handler awaits the output stream's \<^verbatim>\<open>'finish'\<close> before it looks at
  \<open>writeError\<close>; a stream that has emitted \<^verbatim>\<open>'error'\<close> never emits
  \<^verbatim>\<open>'finish'\<close>, the handler has already cleared both intervals and set
  \<open>processComplete\<close>, so nothing is left to resolve the promise. Here the child writes
  100 bytes, the stream fails, the child exits with status 0: for every number of events
  looked at, the promise is still pending.
\<close>

theorem failed_stream_never_settles:
  "verdict fuel child_with_failed_stream 0 = None"
proof -
  have four: "run_loop (Suc (Suc (Suc (Suc n)))) child_with_failed_stream (boot 0) = None" for n
    by (simp add: sim child_with_failed_stream_def run_loop_idle)
  have few: "run_loop 0 child_with_failed_stream (boot 0) = None"
    "run_loop (Suc 0) child_with_failed_stream (boot 0) = None"
    "run_loop (Suc (Suc 0)) child_with_failed_stream (boot 0) = None"
    "run_loop (Suc (Suc (Suc 0))) child_with_failed_stream (boot 0) = None"
    by (simp_all add: sim child_with_failed_stream_def)
  consider "fuel = 0" | "fuel = Suc 0" | "fuel = Suc (Suc 0)" | "fuel = Suc (Suc (Suc 0))"
    | n where "fuel = Suc (Suc (Suc (Suc n)))"
    by (metis not0_implies_Suc)
  then have "run_loop fuel child_with_failed_stream (boot 0) = None"
    using four few by cases simp_all
  then show ?thesis by (simp add: verdict_def)
qed

subsection \<open>Spawn failures\<close>

lemma spawn_errors_become_failures:
  assumes "sqlite3 env argv = SpawnError m"
  shows "argv = [dbPath, ''-json'', query] \<Longrightarrow> queryDatabase env dbPath query = None"
    and "argv = dump_argv dbPath t \<Longrightarrow> \<not> exceeds_30s env argv \<Longrightarrow>
           dumpSingleTable env dbPath t = TableFailed m"
    and "argv = [ip, ''.schema''] \<Longrightarrow> fst (trySchemaExtraction env ip s) = Failed m"
    and "argv = [ip, ''.tables''] \<Longrightarrow> fst (tryBasicExtraction env ip s) = Failed m"
    and "reported (createDatabaseFromSql files (SpawnError m) sqlPath dbPath)
           = Failed (''Failed to create database: '' @ m)"
    and "settled st = None \<Longrightarrow> settled (on_event now (SpawnFailed m) st) = Some (DumpFailed m)"
  using assms
  by (simp_all add: queryDatabase_def dumpSingleTable_def trySchemaExtraction_def
      tryBasicExtraction_def createDatabaseFromSql_def on_event_def on_spawn_failed_def
      resolve_def)

text \<open>
  What the late \<^verbatim>\<open>'close'\<close> after a failed spawn still does: the fallback chain runs
  in the background in its usual order, and the table-list report is written.
\<close>

lemma executeRecovery_late_close_run:
  "\<exists>run. attempts (executeRecovery_late_close tryAlternativeRecovery env ip s)
            = attempts s @ run \<and> run \<noteq> [] \<and>
          fallback_run [TableByTable, SchemaOnly, TableListOnly] run"
proof -
  from tryAlternativeRecovery_run [OF foreign_Nil, where ip = ip and s = s and env = env]
  obtain run where
    "steps_from [] s (tryAlternativeRecovery env ip s) run" "run \<noteq> []"
    "fallback_run [TableByTable, SchemaOnly, TableListOnly] run"
    by blast
  then show ?thesis
    unfolding executeRecovery_late_close_def steps_from_def by blast
qed

lemma tryBasicExtraction_late_close_writes:
  assumes "write_error env (writes s) = None"
  shows "outfile (tryBasicExtraction_late_close env code s) = Some (basic_script code [])"
  using assms by (simp add: tryBasicExtraction_late_close_def writeFile_def)

subsection \<open>The materializer's target\<close>

lemma createDatabaseFromSql_keeps_target:
  "removed (createDatabaseFromSql files outcome sqlPath dbPath) = [] \<and>
   target_at_spawn (createDatabaseFromSql files outcome sqlPath dbPath) = files dbPath"
  by (simp add: createDatabaseFromSql_def)

lemma script_removes_target:
  "target_at_spawn (create_db_from_sql_script files outcome) = None"
  by (simp add: create_db_from_sql_script_def Let_def)

text \<open>
  C6. The claim is that every materialization run removes a file already at the target
  path before the replay starts. The standalone script does (\<open>script_removes_target\<close>);
  the server's \<^verbatim>\<open>createDatabaseFromSql\<close> has no such step: with a database already at
  the target path, nothing is removed and \<^verbatim>\<open>sqlite3\<close> opens the old file and replays the
  script into it.
\<close>

theorem createDatabaseFromSql_replays_into_stale_target:
  "createDatabaseFromSql [''uploads/recovered_17_app.db'' \<mapsto> ''stale database'']
     (Closed 0 [] []) ''uploads/recovery_17_app.sql'' ''uploads/recovered_17_app.db''
   = \<lparr>removed = [], spawned = [''uploads/recovered_17_app.db''],
      target_at_spawn = Some ''stale database'', reported = Succeeded\<rparr>"
  by (simp add: createDatabaseFromSql_def)

end
